theory Spec2Isabelle
  imports Main
begin

section \<open>CxxLazy: run-once action, lazy value cell and their adapters\<close>

text \<open>
  The development embeds \<^verbatim>\<open>components::OnceCall\<close>, \<^verbatim>\<open>components::OnceCell<T>\<close>
  (header \<^verbatim>\<open>once_call.h\<close>) and \<^verbatim>\<open>components::Lazy<T>\<close>, \<^verbatim>\<open>components::Lazy<void>\<close>
  (header \<^verbatim>\<open>lazy.h\<close>).

  Conventions of the embedding:
  \<^item> Every public member function runs to completion before the next one starts (the
    order in which the mutex \<^verbatim>\<open>mtx_\<close> serialises the slow paths); the mutex itself
    carries no data and is not a field of the records.
  \<^item> The trailing underscore of the C++ member names is not available for qualified
    names here: \<^verbatim>\<open>state_\<close> of \<^verbatim>\<open>OnceCall\<close> is \<open>once_state\<close>, \<^verbatim>\<open>value_\<close> and \<^verbatim>\<open>state_\<close>
    of \<^verbatim>\<open>OnceCell\<close> are \<open>cell_value\<close> and \<open>cell_state\<close>, \<^verbatim>\<open>cell_\<close> and \<^verbatim>\<open>init_fn_\<close> of
    \<^verbatim>\<open>Lazy<T>\<close> are \<open>lazy_cell\<close> and \<open>lazy_init_fn\<close>, \<^verbatim>\<open>once_\<close> and \<^verbatim>\<open>init_fn_\<close> of
    \<^verbatim>\<open>Lazy<void>\<close> are \<open>void_once\<close> and \<open>void_init_fn\<close>.
  \<^item> An initializer is a callable with side effects that may throw. It is a function
    from the state \<open>'w\<close> of everything it can touch outside the primitive (a counter, a
    log) to its outcome and the state it leaves: \<open>Inr v\<close> when it returns \<open>v\<close>,
    \<open>Inl e\<close> when it throws \<open>e\<close>. Effects made before a throw stay.
  \<^item> \<^verbatim>\<open>*value_\<close> on an empty \<^verbatim>\<open>std::optional\<close> is undefined behaviour in C++; the model
    makes it the explicit outcome \<open>Empty_Optional_Access\<close>.
  \<^item> A \<^verbatim>\<open>T*\<close> result is an \<open>'a option\<close>: \<open>None\<close> is \<^verbatim>\<open>nullptr\<close>, \<open>Some v\<close> points to the
    stored \<open>v\<close>. A \<^verbatim>\<open>T&\<close> result is the value referred to.
\<close>

subsection \<open>Data model\<close>

text \<open>\<^verbatim>\<open>enum class State { Uninitialized, Initializing, Initialized }\<close>\<close>

datatype State = Uninitialized | Initializing | Initialized

datatype 'e error = Thrown 'e | Empty_Optional_Access

type_synonym ('w, 'e, 'a) init_fn = "'w \<Rightarrow> ('e + 'a) \<times> 'w"

record OnceCall =
  once_state :: State

record 'a OnceCell =
  cell_value :: "'a option"
  cell_state :: State

record ('w, 'e, 'a) Lazy =
  lazy_cell :: "'a OnceCell"
  lazy_init_fn :: "('w, 'e, 'a) init_fn"

record ('w, 'e) LazyVoid =
  void_once :: OnceCall
  void_init_fn :: "('w, 'e, unit) init_fn"

subsection \<open>OnceCall\<close>

text \<open>\<^verbatim>\<open>OnceCall::OnceCall() : state_(State::Uninitialized) {}\<close>\<close>

definition OnceCall_new :: OnceCall where
  "OnceCall_new = \<lparr>once_state = Uninitialized\<rparr>"

text \<open>
  \<^verbatim>\<open>OnceCall::call\<close>: the unlocked check, the check repeated under the lock, the store
  of \<^verbatim>\<open>Initializing\<close>, then the \<^verbatim>\<open>try\<close> block (invoke, store \<^verbatim>\<open>Initialized\<close>) or the
  \<^verbatim>\<open>catch (...)\<close> block (store \<^verbatim>\<open>Uninitialized\<close>, rethrow).
\<close>

definition OnceCall_call ::
  "('w, 'e, unit) init_fn \<Rightarrow> OnceCall \<Rightarrow> 'w \<Rightarrow> ('e error + unit) \<times> OnceCall \<times> 'w" where
  "OnceCall_call fn c w =
     (if once_state c = Initialized then (Inr (), c, w)
      else if once_state c = Initialized then (Inr (), c, w)
      else
        let c1 = c\<lparr>once_state := Initializing\<rparr> in
        (case fn w of
           (Inr u, w') \<Rightarrow> (Inr (), c1\<lparr>once_state := Initialized\<rparr>, w')
         | (Inl e, w') \<Rightarrow> (Inl (Thrown e), c1\<lparr>once_state := Uninitialized\<rparr>, w')))"

definition OnceCall_reset :: "OnceCall \<Rightarrow> OnceCall" where
  "OnceCall_reset c = c\<lparr>once_state := Uninitialized\<rparr>"

definition OnceCall_is_initialized :: "OnceCall \<Rightarrow> bool" where
  "OnceCall_is_initialized c = (once_state c = Initialized)"

text \<open>
  A caller that makes one \<^verbatim>\<open>call\<close> after the other on the same object, each with its
  own initializer, catching what a call throws: the outcomes in order, the object and
  the outside state at the end.
\<close>

primrec OnceCall_calls ::
  "('w, 'e, unit) init_fn list \<Rightarrow> OnceCall \<Rightarrow> 'w \<Rightarrow> ('e error + unit) list \<times> OnceCall \<times> 'w" where
  "OnceCall_calls [] c w = ([], c, w)"
| "OnceCall_calls (fn # fns) c w =
     (case OnceCall_call fn c w of
        (r, c', w') \<Rightarrow>
          (case OnceCall_calls fns c' w' of (rs, c'', w'') \<Rightarrow> (r # rs, c'', w'')))"

subsection \<open>OnceCell\<close>

text \<open>\<^verbatim>\<open>OnceCell<T>::OnceCell() : state_(State::Uninitialized) {}\<close>; \<^verbatim>\<open>value_\<close> is
  default-constructed, an empty optional.\<close>

definition OnceCell_new :: "'a OnceCell" where
  "OnceCell_new = \<lparr>cell_value = None, cell_state = Uninitialized\<rparr>"

text \<open>\<^verbatim>\<open>*value_\<close>\<close>

definition optional_deref :: "'a option \<Rightarrow> 'e error + 'a" where
  "optional_deref opt = (case opt of None \<Rightarrow> Inl Empty_Optional_Access | Some v \<Rightarrow> Inr v)"

text \<open>
  \<^verbatim>\<open>OnceCell<T>::get_or_init\<close>. In \<^verbatim>\<open>value_.emplace(fn())\<close> the call \<^verbatim>\<open>fn()\<close> is
  evaluated first: when it throws, \<^verbatim>\<open>emplace\<close> is not reached and the \<^verbatim>\<open>catch\<close> block
  stores \<^verbatim>\<open>Uninitialized\<close> without touching \<^verbatim>\<open>value_\<close>.
\<close>

definition OnceCell_get_or_init ::
  "('w, 'e, 'a) init_fn \<Rightarrow> 'a OnceCell \<Rightarrow> 'w \<Rightarrow> ('e error + 'a) \<times> 'a OnceCell \<times> 'w" where
  "OnceCell_get_or_init fn c w =
     (if cell_state c = Initialized then (optional_deref (cell_value c), c, w)
      else if cell_state c = Initialized then (optional_deref (cell_value c), c, w)
      else
        let c1 = c\<lparr>cell_state := Initializing\<rparr> in
        (case fn w of
           (Inr v, w') \<Rightarrow>
             let c2 = c1\<lparr>cell_value := Some v\<rparr>;
                 c3 = c2\<lparr>cell_state := Initialized\<rparr>
             in (optional_deref (cell_value c3), c3, w')
         | (Inl e, w') \<Rightarrow> (Inl (Thrown e), c1\<lparr>cell_state := Uninitialized\<rparr>, w')))"

definition OnceCell_is_initialized :: "'a OnceCell \<Rightarrow> bool" where
  "OnceCell_is_initialized c = (cell_state c = Initialized)"

text \<open>\<^verbatim>\<open>T* get()\<close>: \<^verbatim>\<open>&(*value_)\<close> when \<^verbatim>\<open>Initialized\<close>, \<^verbatim>\<open>nullptr\<close> otherwise.\<close>

definition OnceCell_get :: "'a OnceCell \<Rightarrow> 'e error + 'a option" where
  "OnceCell_get c =
     (if cell_state c = Initialized
      then (case optional_deref (cell_value c) of Inl u \<Rightarrow> Inl u | Inr v \<Rightarrow> Inr (Some v))
      else Inr None)"

definition OnceCell_try_get :: "'a OnceCell \<Rightarrow> 'e error + 'a option" where
  "OnceCell_try_get c =
     (if cell_state c = Initialized
      then (case optional_deref (cell_value c) of Inl u \<Rightarrow> Inl u | Inr v \<Rightarrow> Inr (Some v))
      else Inr None)"

text \<open>\<^verbatim>\<open>reset\<close>: \<^verbatim>\<open>value_.reset()\<close>, then the store of \<^verbatim>\<open>Uninitialized\<close>.\<close>

definition OnceCell_reset :: "'a OnceCell \<Rightarrow> 'a OnceCell" where
  "OnceCell_reset c = (c\<lparr>cell_value := None\<rparr>)\<lparr>cell_state := Uninitialized\<rparr>"

text \<open>\<^verbatim>\<open>operator*\<close> is \<^verbatim>\<open>*value_\<close> and \<^verbatim>\<open>operator->\<close> is \<^verbatim>\<open>&(*value_)\<close>, const or not.\<close>

definition OnceCell_deref :: "'a OnceCell \<Rightarrow> 'e error + 'a" where
  "OnceCell_deref c = optional_deref (cell_value c)"

definition OnceCell_arrow :: "'a OnceCell \<Rightarrow> 'e error + 'a option" where
  "OnceCell_arrow c =
     (case optional_deref (cell_value c) of Inl u \<Rightarrow> Inl u | Inr v \<Rightarrow> Inr (Some v))"

text \<open>
  A caller that performs a sequence of the public operations \<^verbatim>\<open>get_or_init\<close>, \<^verbatim>\<open>get\<close>,
  \<^verbatim>\<open>try_get\<close>, \<^verbatim>\<open>is_initialized\<close> and \<^verbatim>\<open>reset\<close> on one cell, catching what
  \<^verbatim>\<open>get_or_init\<close> throws.
\<close>

datatype ('w, 'e, 'a) cell_op =
  Get_or_init "('w, 'e, 'a) init_fn"
| Get
| Try_get
| Is_initialized
| Reset

datatype ('e, 'a) cell_result =
  Ref_result "'e error + 'a"
| Ptr_result "'e error + 'a option"
| Bool_result bool
| Void_result

fun OnceCell_step ::
  "('w, 'e, 'a) cell_op \<Rightarrow> 'a OnceCell \<Rightarrow> 'w \<Rightarrow> ('e, 'a) cell_result \<times> 'a OnceCell \<times> 'w" where
  "OnceCell_step (Get_or_init fn) c w =
     (case OnceCell_get_or_init fn c w of (r, c', w') \<Rightarrow> (Ref_result r, c', w'))"
| "OnceCell_step Get c w = (Ptr_result (OnceCell_get c), c, w)"
| "OnceCell_step Try_get c w = (Ptr_result (OnceCell_try_get c), c, w)"
| "OnceCell_step Is_initialized c w = (Bool_result (OnceCell_is_initialized c), c, w)"
| "OnceCell_step Reset c w = (Void_result, OnceCell_reset c, w)"

primrec OnceCell_run ::
  "('w, 'e, 'a) cell_op list \<Rightarrow> 'a OnceCell \<Rightarrow> 'w
     \<Rightarrow> ('e, 'a) cell_result list \<times> 'a OnceCell \<times> 'w" where
  "OnceCell_run [] c w = ([], c, w)"
| "OnceCell_run (x # xs) c w =
     (case OnceCell_step x c w of
        (r, c', w') \<Rightarrow>
          (case OnceCell_run xs c' w' of (rs, c'', w'') \<Rightarrow> (r # rs, c'', w'')))"

subsection \<open>Lazy<T>\<close>

text \<open>\<^verbatim>\<open>Lazy<T>::Lazy(InitFn init_fn) : init_fn_(std::move(init_fn)) {}\<close>; \<^verbatim>\<open>cell_\<close> is
  default-constructed.\<close>

definition Lazy_new :: "('w, 'e, 'a) init_fn \<Rightarrow> ('w, 'e, 'a) Lazy" where
  "Lazy_new init_fn = \<lparr>lazy_cell = OnceCell_new, lazy_init_fn = init_fn\<rparr>"

definition Lazy_get ::
  "('w, 'e, 'a) Lazy \<Rightarrow> 'w \<Rightarrow> ('e error + 'a) \<times> ('w, 'e, 'a) Lazy \<times> 'w" where
  "Lazy_get l w =
     (case OnceCell_get_or_init (lazy_init_fn l) (lazy_cell l) w of
        (r, c', w') \<Rightarrow> (r, l\<lparr>lazy_cell := c'\<rparr>, w'))"

text \<open>\<^verbatim>\<open>operator*\<close> is \<^verbatim>\<open>return get();\<close> and \<^verbatim>\<open>operator->\<close> is \<^verbatim>\<open>return &get();\<close>\<close>

definition Lazy_deref ::
  "('w, 'e, 'a) Lazy \<Rightarrow> 'w \<Rightarrow> ('e error + 'a) \<times> ('w, 'e, 'a) Lazy \<times> 'w" where
  "Lazy_deref l w = Lazy_get l w"

definition Lazy_arrow ::
  "('w, 'e, 'a) Lazy \<Rightarrow> 'w \<Rightarrow> ('e error + 'a option) \<times> ('w, 'e, 'a) Lazy \<times> 'w" where
  "Lazy_arrow l w =
     (case Lazy_get l w of
        (Inl u, l', w') \<Rightarrow> (Inl u, l', w')
      | (Inr v, l', w') \<Rightarrow> (Inr (Some v), l', w'))"

definition Lazy_is_initialized :: "('w, 'e, 'a) Lazy \<Rightarrow> bool" where
  "Lazy_is_initialized l = OnceCell_is_initialized (lazy_cell l)"

text \<open>
  \<^verbatim>\<open>const T* Lazy<T>::try_get() const\<close> is written \<^verbatim>\<open>return cell_.get();\<close>. The member
  \<^verbatim>\<open>cell_\<close> is not \<^verbatim>\<open>mutable\<close> and \<^verbatim>\<open>T* OnceCell<T>::get()\<close> is not a \<^verbatim>\<open>const\<close> member
  (the \<^verbatim>\<open>const\<close> accessor of the cell is \<^verbatim>\<open>try_get\<close>), so the body is ill-formed whenever
  the member is instantiated: no program can call \<^verbatim>\<open>Lazy<T>::try_get\<close>, and there is no
  function to embed for it.
\<close>

definition Lazy_reset :: "('w, 'e, 'a) Lazy \<Rightarrow> ('w, 'e, 'a) Lazy" where
  "Lazy_reset l = l\<lparr>lazy_cell := OnceCell_reset (lazy_cell l)\<rparr>"

text \<open>\<^verbatim>\<open>explicit operator bool() const { return is_initialized(); }\<close>\<close>

definition Lazy_bool :: "('w, 'e, 'a) Lazy \<Rightarrow> bool" where
  "Lazy_bool l = Lazy_is_initialized l"

subsection \<open>Lazy<void>\<close>

definition LazyVoid_new :: "('w, 'e, unit) init_fn \<Rightarrow> ('w, 'e) LazyVoid" where
  "LazyVoid_new init_fn = \<lparr>void_once = OnceCall_new, void_init_fn = init_fn\<rparr>"

definition LazyVoid_get ::
  "('w, 'e) LazyVoid \<Rightarrow> 'w \<Rightarrow> ('e error + unit) \<times> ('w, 'e) LazyVoid \<times> 'w" where
  "LazyVoid_get l w =
     (case OnceCall_call (void_init_fn l) (void_once l) w of
        (r, c', w') \<Rightarrow> (r, l\<lparr>void_once := c'\<rparr>, w'))"

definition LazyVoid_is_initialized :: "('w, 'e) LazyVoid \<Rightarrow> bool" where
  "LazyVoid_is_initialized l = OnceCall_is_initialized (void_once l)"

definition LazyVoid_bool :: "('w, 'e) LazyVoid \<Rightarrow> bool" where
  "LazyVoid_bool l = LazyVoid_is_initialized l"

definition LazyVoid_reset :: "('w, 'e) LazyVoid \<Rightarrow> ('w, 'e) LazyVoid" where
  "LazyVoid_reset l = l\<lparr>void_once := OnceCall_reset (void_once l)\<rparr>"

text \<open>\<^verbatim>\<open>get()\<close> called \<open>n\<close> times in a row on one adapter.\<close>

primrec LazyVoid_gets ::
  "nat \<Rightarrow> ('w, 'e) LazyVoid \<Rightarrow> 'w \<Rightarrow> ('e error + unit) list \<times> ('w, 'e) LazyVoid \<times> 'w" where
  "LazyVoid_gets 0 l w = ([], l, w)"
| "LazyVoid_gets (Suc n) l w =
     (case LazyVoid_get l w of
        (r, l', w') \<Rightarrow>
          (case LazyVoid_gets n l' w' of (rs, l'', w'') \<Rightarrow> (r # rs, l'', w'')))"

subsection \<open>Observing initializers\<close>

text \<open>
  An initializer wrapped so that the outside state carries a count of its successful
  invocations: the count goes up exactly when the wrapped initializer is invoked and
  returns normally.
\<close>

definition counted :: "('w, 'e, 'a) init_fn \<Rightarrow> (nat \<times> 'w, 'e, 'a) init_fn" where
  "counted fn = (\<lambda>(n, w).
     case fn w of
       (Inr v, w') \<Rightarrow> (Inr v, (Suc n, w'))
     | (Inl e, w') \<Rightarrow> (Inl e, (n, w')))"

text \<open>The initializer of the tests: \<^verbatim>\<open>[&] { counter++; }\<close>\<close>

definition increment :: "(nat, 'e, unit) init_fn" where
  "increment = (\<lambda>counter. (Inr (), Suc counter))"

text \<open>Initializers returning a constant and throwing: \<^verbatim>\<open>[] { return v; }\<close>,
  \<^verbatim>\<open>[] { throw e; }\<close>\<close>

definition returning :: "'a \<Rightarrow> ('w, 'e, 'a) init_fn" where
  "returning v = (\<lambda>w. (Inr v, w))"

definition throwing :: "'e \<Rightarrow> ('w, 'e, 'a) init_fn" where
  "throwing e = (\<lambda>w. (Inl e, w))"

text \<open>The slot is occupied exactly when the flag says \<^verbatim>\<open>Initialized\<close>.\<close>

definition cell_inv :: "'a OnceCell \<Rightarrow> bool" where
  "cell_inv c = ((cell_value c \<noteq> None) = (cell_state c = Initialized))"

text \<open>Between two operations the flag is never \<^verbatim>\<open>Initializing\<close>.\<close>

definition cell_ok :: "'a OnceCell \<Rightarrow> bool" where
  "cell_ok c = (cell_inv c \<and> cell_state c \<noteq> Initializing)"

section \<open>The run-once action\<close>

lemma call_initialized:
  "once_state c = Initialized \<Longrightarrow> OnceCall_call fn c w = (Inr (), c, w)"
  by (simp add: OnceCall_call_def)

lemma call_success_state:
  "OnceCall_call fn c w = (Inr u, c', w') \<Longrightarrow> once_state c' = Initialized"
  by (auto simp: OnceCall_call_def Let_def split: if_splits prod.splits sum.splits)

lemma call_counted_cases:
  "OnceCall_call (counted fn) c (n, w) = (r, c', (n', w')) \<Longrightarrow>
     (once_state c = Initialized \<and> c' = c \<and> n' = n \<and> w' = w \<and> r = Inr ()) \<or>
     (once_state c \<noteq> Initialized \<and> once_state c' = Initialized \<and> n' = Suc n \<and> r = Inr ()) \<or>
     (once_state c \<noteq> Initialized \<and> once_state c' = Uninitialized \<and> n' = n \<and> r \<noteq> Inr ())"
  by (auto simp: OnceCall_call_def counted_def Let_def split: if_splits prod.splits sum.splits)

lemma calls_counted_le:
  "OnceCall_calls (map counted fns) c (n, w) = (rs, c', (n', w')) \<Longrightarrow>
     (if once_state c = Initialized then n' = n \<and> c' = c
      else n' = n \<and> once_state c' \<noteq> Initialized \<or> n' = Suc n \<and> once_state c' = Initialized)"
proof (induction fns arbitrary: c n w rs c' n' w')
  case Nil
  then show ?case by auto
next
  case (Cons fn fns)
  obtain r c1 n1 w1 where step: "OnceCall_call (counted fn) c (n, w) = (r, c1, (n1, w1))"
    by (metis prod_cases3)
  obtain rs1 where rest: "OnceCall_calls (map counted fns) c1 (n1, w1) = (rs1, c', (n', w'))"
    using Cons.prems step by (auto split: prod.splits)
  note ih = Cons.IH [OF rest]
  from call_counted_cases [OF step] ih show ?case
    by (auto split: if_splits)
qed

lemma LazyVoid_gets_calls:
  "LazyVoid_gets n l w =
     (case OnceCall_calls (replicate n (void_init_fn l)) (void_once l) w of
        (rs, c', w') \<Rightarrow> (rs, l\<lparr>void_once := c'\<rparr>, w'))"
  by (induction n arbitrary: l w) (auto simp: LazyVoid_get_def split: prod.splits)

lemma calls_counted_new:
  "fst (snd (snd (OnceCall_calls (map counted fns) OnceCall_new (0, w0)))) \<le> 1"
proof -
  obtain rs c' n' w' where
    run: "OnceCall_calls (map counted fns) OnceCall_new (0, w0) = (rs, c', (n', w'))"
    by (metis prod_cases4)
  from calls_counted_le [OF run] have "n' \<le> 1"
    by (auto simp: OnceCall_new_def split: if_splits)
  with run show ?thesis by simp
qed

text \<open>
  Claim C1. On a \<^verbatim>\<open>OnceCall\<close> that is \<^verbatim>\<open>Initialized\<close>, \<^verbatim>\<open>call\<close> returns normally and leaves
  the object and the outside state as they were, whatever initializer it is given: the
  initializer is not invoked. A \<^verbatim>\<open>call\<close> that returns normally leaves the object
  \<^verbatim>\<open>Initialized\<close>, so every later \<^verbatim>\<open>call\<close> is of that kind. Across any sequence of
  \<^verbatim>\<open>call\<close>s on a new object, each with its own initializer, at most one invocation
  completes successfully. \<^verbatim>\<open>Lazy<void>::get\<close> delegates to \<^verbatim>\<open>call\<close> with the bound
  initializer and has the same properties. An initializer that increments a counter leaves
  the counter at 1 after two \<^verbatim>\<open>call\<close>s, and after two \<^verbatim>\<open>get\<close>s of the adapter.
\<close>

theorem OnceCall_invoked_at_most_once:
  "(once_state c = Initialized \<longrightarrow> OnceCall_call fn c w = (Inr (), c, w)) \<and>
   (fst (OnceCall_call fn c w) = Inr () \<longrightarrow>
      once_state (fst (snd (OnceCall_call fn c w))) = Initialized \<and>
      OnceCall_call fn' (fst (snd (OnceCall_call fn c w))) w1 =
        (Inr (), fst (snd (OnceCall_call fn c w)), w1)) \<and>
   fst (snd (snd (OnceCall_calls (map counted fns) OnceCall_new (0, w0)))) \<le> 1 \<and>
   (LazyVoid_is_initialized l \<longrightarrow> LazyVoid_get l w = (Inr (), l, w)) \<and>
   fst (snd (snd (LazyVoid_gets n (LazyVoid_new (counted g)) (0, w0)))) \<le> 1 \<and>
   snd (snd (OnceCall_calls [increment, increment] OnceCall_new 0)) = 1 \<and>
   snd (snd (LazyVoid_gets 2 (LazyVoid_new increment) 0)) = 1"
proof (intro conjI impI)
  assume "once_state c = Initialized"
  then show "OnceCall_call fn c w = (Inr (), c, w)"
    by (rule call_initialized)
next
  assume ok: "fst (OnceCall_call fn c w) = Inr ()"
  obtain r c' w' where step: "OnceCall_call fn c w = (r, c', w')"
    by (metis prod_cases3)
  with ok have "OnceCall_call fn c w = (Inr (), c', w')" by simp
  then have st: "once_state c' = Initialized" by (rule call_success_state)
  with step show "once_state (fst (snd (OnceCall_call fn c w))) = Initialized" by simp
  from st step show "OnceCall_call fn' (fst (snd (OnceCall_call fn c w))) w1 =
        (Inr (), fst (snd (OnceCall_call fn c w)), w1)"
    by (simp add: call_initialized)
next
  show "fst (snd (snd (OnceCall_calls (map counted fns) OnceCall_new (0, w0)))) \<le> 1"
    by (rule calls_counted_new)
next
  assume "LazyVoid_is_initialized l"
  then show "LazyVoid_get l w = (Inr (), l, w)"
    by (simp add: LazyVoid_is_initialized_def OnceCall_is_initialized_def LazyVoid_get_def
          call_initialized)
next
  have "fst (snd (snd (OnceCall_calls (replicate n (counted g)) OnceCall_new (0, w0)))) \<le> 1"
    using calls_counted_new [of "replicate n g" w0] by simp
  then show "fst (snd (snd (LazyVoid_gets n (LazyVoid_new (counted g)) (0, w0)))) \<le> 1"
    by (auto simp: LazyVoid_gets_calls LazyVoid_new_def split: prod.splits)
next
  show "snd (snd (OnceCall_calls [increment, increment] OnceCall_new 0)) = 1"
    by (simp add: OnceCall_call_def OnceCall_new_def increment_def)
next
  show "snd (snd (LazyVoid_gets 2 (LazyVoid_new increment) 0)) = 1"
    by (simp add: numeral_2_eq_2 LazyVoid_get_def LazyVoid_new_def OnceCall_call_def
          OnceCall_new_def increment_def)
qed

theorem OnceCall_invoked_at_most_once_witness:
  "once_state \<lparr>once_state = Initialized\<rparr> = Initialized \<and>
   OnceCall_call (increment :: (nat, unit, unit) init_fn) \<lparr>once_state = Initialized\<rparr> 1 =
     (Inr (), \<lparr>once_state = Initialized\<rparr>, 1) \<and>
   fst (OnceCall_call (increment :: (nat, unit, unit) init_fn) OnceCall_new 0) = Inr () \<and>
   OnceCall_call (increment :: (nat, unit, unit) init_fn)
     (fst (snd (OnceCall_call (increment :: (nat, unit, unit) init_fn) OnceCall_new 0))) 1 =
     (Inr (), \<lparr>once_state = Initialized\<rparr>, 1) \<and>
   LazyVoid_is_initialized
     \<lparr>void_once = \<lparr>once_state = Initialized\<rparr>,
      void_init_fn = (increment :: (nat, unit, unit) init_fn)\<rparr> \<and>
   LazyVoid_get
     \<lparr>void_once = \<lparr>once_state = Initialized\<rparr>,
      void_init_fn = (increment :: (nat, unit, unit) init_fn)\<rparr> 1 =
     (Inr (),
      \<lparr>void_once = \<lparr>once_state = Initialized\<rparr>,
       void_init_fn = (increment :: (nat, unit, unit) init_fn)\<rparr>, 1)"
  using OnceCall_invoked_at_most_once
    [where c = "\<lparr>once_state = Initialized\<rparr>"
       and fn = "increment :: (nat, unit, unit) init_fn" and w = 1
       and fn' = "increment :: (nat, unit, unit) init_fn" and ?w1.0 = 1
       and fns = "[]" and ?w0.0 = 0 and n = 0
       and g = "increment :: (nat, unit, unit) init_fn"
       and l = "\<lparr>void_once = \<lparr>once_state = Initialized\<rparr>,
                 void_init_fn = (increment :: (nat, unit, unit) init_fn)\<rparr>"]
    OnceCall_invoked_at_most_once
    [where c = OnceCall_new
       and fn = "increment :: (nat, unit, unit) init_fn" and w = 0
       and fn' = "increment :: (nat, unit, unit) init_fn" and ?w1.0 = 1
       and fns = "[]" and ?w0.0 = 0 and n = 0
       and g = "increment :: (nat, unit, unit) init_fn"
       and l = "\<lparr>void_once = \<lparr>once_state = Initialized\<rparr>,
                 void_init_fn = (increment :: (nat, unit, unit) init_fn)\<rparr>"]
  by (simp add: OnceCall_call_def OnceCall_new_def increment_def LazyVoid_is_initialized_def
        OnceCall_is_initialized_def LazyVoid_get_def)


section \<open>The lazy value cell\<close>

lemma get_or_init_initialized:
  "cell_state c = Initialized \<Longrightarrow> cell_value c = Some v \<Longrightarrow>
     OnceCell_get_or_init fn c w = (Inr v, c, w)"
  by (simp add: OnceCell_get_or_init_def optional_deref_def)

lemma get_or_init_success:
  "OnceCell_get_or_init fn c w = (Inr v, c', w') \<Longrightarrow>
     cell_state c' = Initialized \<and> cell_value c' = Some v"
  by (auto simp: OnceCell_get_or_init_def optional_deref_def Let_def
           split: if_splits prod.splits sum.splits option.splits)

lemma get_or_init_slow_success:
  "cell_state c \<noteq> Initialized \<Longrightarrow> fn w = (Inr v, w') \<Longrightarrow>
     OnceCell_get_or_init fn c w = (Inr v, c\<lparr>cell_value := Some v, cell_state := Initialized\<rparr>, w')"
  by (simp add: OnceCell_get_or_init_def optional_deref_def Let_def)

lemma get_or_init_slow_failure:
  "cell_state c \<noteq> Initialized \<Longrightarrow> fn w = (Inl e, w') \<Longrightarrow>
     OnceCell_get_or_init fn c w = (Inl (Thrown e), c\<lparr>cell_state := Uninitialized\<rparr>, w')"
  by (simp add: OnceCell_get_or_init_def Let_def)

lemma cell_ok_new: "cell_ok OnceCell_new"
  by (simp add: cell_ok_def cell_inv_def OnceCell_new_def)

lemma cell_ok_get_or_init:
  "cell_ok c \<Longrightarrow> OnceCell_get_or_init fn c w = (r, c', w') \<Longrightarrow> cell_ok c'"
  by (auto simp: cell_ok_def cell_inv_def OnceCell_get_or_init_def Let_def
           split: if_splits prod.splits sum.splits)

lemma cell_ok_reset: "cell_ok (OnceCell_reset c)"
  by (simp add: cell_ok_def cell_inv_def OnceCell_reset_def)

lemma cell_ok_step:
  "cell_ok c \<Longrightarrow> OnceCell_step x c w = (r, c', w') \<Longrightarrow> cell_ok c'"
  by (cases x) (auto simp: cell_ok_reset dest: cell_ok_get_or_init split: prod.splits)

lemma cell_ok_run:
  "cell_ok c \<Longrightarrow> OnceCell_run xs c w = (rs, c', w') \<Longrightarrow> cell_ok c'"
proof (induction xs arbitrary: c w rs)
  case Nil
  then show ?case by simp
next
  case (Cons x xs)
  obtain r c1 w1 where step: "OnceCell_step x c w = (r, c1, w1)"
    by (metis prod_cases3)
  obtain rs1 where rest: "OnceCell_run xs c1 w1 = (rs1, c', w')"
    using Cons.prems(2) step by (auto split: prod.splits)
  from cell_ok_step [OF Cons.prems(1) step] have "cell_ok c1" .
  from Cons.IH [OF this rest] show ?case .
qed

lemma cell_ok_reachable:
  "OnceCell_run xs OnceCell_new w = (rs, c, w') \<Longrightarrow> cell_ok c"
  by (rule cell_ok_run [OF cell_ok_new])

lemma step_initialized_frame:
  "cell_state c = Initialized \<Longrightarrow> x \<noteq> Reset \<Longrightarrow> snd (OnceCell_step x c w) = (c, w)"
  by (cases x) (simp_all add: OnceCell_get_or_init_def)

lemma run_initialized:
  "cell_state c = Initialized \<Longrightarrow> Reset \<notin> set xs \<Longrightarrow>
     OnceCell_run xs c w = (map (\<lambda>x. fst (OnceCell_step x c w)) xs, c, w)"
proof (induction xs)
  case Nil
  then show ?case by simp
next
  case (Cons x xs)
  from Cons.prems have "snd (OnceCell_step x c w) = (c, w)"
    by (intro step_initialized_frame) auto
  then obtain r where "OnceCell_step x c w = (r, c, w)"
    by (metis prod.collapse)
  with Cons show ?case by simp
qed

lemma get_try_get: "OnceCell_try_get c = OnceCell_get c"
  by (simp add: OnceCell_try_get_def OnceCell_get_def)

lemma get_ok:
  "cell_ok c \<Longrightarrow> (OnceCell_get c :: 'e error + 'a option) = Inr (cell_value c)"
  by (auto simp: cell_ok_def cell_inv_def OnceCell_get_def optional_deref_def split: option.splits)

lemma reachable_failure:
  assumes run: "OnceCell_run ops OnceCell_new w = (rs, c, w1)"
    and fail: "OnceCell_get_or_init fn c w1 = (Inl x, c', w2)"
  shows "(\<exists>e. x = Thrown e \<and> fn w1 = (Inl e, w2)) \<and> c' = c \<and>
         cell_value c' = None \<and> cell_state c' = Uninitialized"
proof -
  from run have ok: "cell_ok c" by (rule cell_ok_reachable)
  have ni: "cell_state c \<noteq> Initialized"
  proof
    assume st: "cell_state c = Initialized"
    with ok obtain v where "cell_value c = Some v"
      by (auto simp: cell_ok_def cell_inv_def)
    with st have "OnceCell_get_or_init fn c w1 = (Inr v, c, w1)"
      by (rule get_or_init_initialized)
    with fail show False by simp
  qed
  with ok have st: "cell_state c = Uninitialized" and emp: "cell_value c = None"
    by (auto simp: cell_ok_def cell_inv_def intro: State.exhaust [of "cell_state c"])
  from fail ni st emp show ?thesis
    by (auto simp: OnceCell_get_or_init_def optional_deref_def Let_def
             split: prod.splits sum.splits)
qed

lemma run_readers_frame:
  "set ops \<subseteq> {Get, Try_get, Is_initialized} \<Longrightarrow> snd (OnceCell_run ops c w) = (c, w)"
  by (induction ops) (auto split: prod.splits)

text \<open>
  Claim C2. When \<^verbatim>\<open>get_or_init\<close> has returned a value \<open>v\<close>, the cell is
  \<^verbatim>\<open>Initialized\<close> and holds \<open>v\<close>; every later \<^verbatim>\<open>get_or_init\<close>, with any initializer and
  in any outside state, returns \<open>v\<close> and leaves the cell and the outside state as they
  were, so the new initializer is not invoked. The same holds along any sequence of later
  \<^verbatim>\<open>get_or_init\<close> calls, and along any sequence of operations without \<^verbatim>\<open>reset\<close> each
  operation answers as it does on that cell. Initializing with a function returning 42
  and then calling \<^verbatim>\<open>get_or_init\<close> with a function returning 123 yields 42 both times,
  and \<^verbatim>\<open>is_initialized\<close> is true.
\<close>

theorem OnceCell_get_or_init_idempotent:
  assumes "OnceCell_get_or_init fn c w = (Inr v, c', w')"
  shows "OnceCell_is_initialized c' \<and> cell_value c' = Some v \<and>
         OnceCell_get_or_init fn' c' w1 = (Inr v, c', w1) \<and>
         OnceCell_run (map Get_or_init fns) c' w1 =
           (replicate (length fns) (Ref_result (Inr v)), c', w1) \<and>
         (Reset \<notin> set ops \<longrightarrow>
            OnceCell_run ops c' w1 = (map (\<lambda>x. fst (OnceCell_step x c' w1)) ops, c', w1)) \<and>
         OnceCell_run [Get_or_init (returning 42), Get_or_init (returning 123), Is_initialized]
             OnceCell_new w2 =
           ([Ref_result (Inr (42 :: int)), Ref_result (Inr 42), Bool_result True],
            \<lparr>cell_value = Some 42, cell_state = Initialized\<rparr>, w2)"
proof (intro conjI)
  from get_or_init_success [OF assms]
  have st: "cell_state c' = Initialized" and val: "cell_value c' = Some v" by simp_all
  show "OnceCell_is_initialized c'"
    using st by (simp add: OnceCell_is_initialized_def)
  show "cell_value c' = Some v" by (rule val)
  show "OnceCell_get_or_init fn' c' w1 = (Inr v, c', w1)"
    using st val by (rule get_or_init_initialized)
  show "OnceCell_run (map Get_or_init fns) c' w1 =
      (replicate (length fns) (Ref_result (Inr v)), c', w1)"
    by (induction fns) (simp_all add: get_or_init_initialized [OF st val])
  show "Reset \<notin> set ops \<longrightarrow>
      OnceCell_run ops c' w1 = (map (\<lambda>x. fst (OnceCell_step x c' w1)) ops, c', w1)"
    using st by (simp add: run_initialized)
  show "OnceCell_run [Get_or_init (returning 42), Get_or_init (returning 123), Is_initialized]
             OnceCell_new w2 =
           ([Ref_result (Inr (42 :: int)), Ref_result (Inr 42), Bool_result True],
            \<lparr>cell_value = Some 42, cell_state = Initialized\<rparr>, w2)"
    by (simp add: OnceCell_get_or_init_def OnceCell_new_def returning_def optional_deref_def
          OnceCell_is_initialized_def)
qed

theorem OnceCell_get_or_init_idempotent_witness:
  "OnceCell_get_or_init (counted (returning 42) :: (nat \<times> unit, unit, int) init_fn)
       OnceCell_new (0, ()) =
     (Inr 42, \<lparr>cell_value = Some 42, cell_state = Initialized\<rparr>, (1, ())) \<and>
   OnceCell_is_initialized \<lparr>cell_value = Some (42 :: int), cell_state = Initialized\<rparr> \<and>
   OnceCell_get_or_init (counted (returning 123) :: (nat \<times> unit, unit, int) init_fn)
       \<lparr>cell_value = Some 42, cell_state = Initialized\<rparr> (1, ()) =
     (Inr 42, \<lparr>cell_value = Some 42, cell_state = Initialized\<rparr>, (1, ())) \<and>
   Reset \<notin> set [Get, Get_or_init (counted (returning 123) :: (nat \<times> unit, unit, int) init_fn)] \<and>
   OnceCell_run [Get, Get_or_init (counted (returning 123) :: (nat \<times> unit, unit, int) init_fn)]
       \<lparr>cell_value = Some 42, cell_state = Initialized\<rparr> (1, ()) =
     ([Ptr_result (Inr (Some 42)), Ref_result (Inr 42)],
      \<lparr>cell_value = Some 42, cell_state = Initialized\<rparr>, (1, ()))"
proof -
  have h: "OnceCell_get_or_init (counted (returning 42) :: (nat \<times> unit, unit, int) init_fn)
       OnceCell_new (0, ()) =
     (Inr 42, \<lparr>cell_value = Some 42, cell_state = Initialized\<rparr>, (1, ()))"
    by (simp add: OnceCell_get_or_init_def OnceCell_new_def counted_def returning_def
          optional_deref_def)
  have n: "Reset \<notin> set [Get, Get_or_init (counted (returning 123) :: (nat \<times> unit, unit, int) init_fn)]"
    by simp
  from h n OnceCell_get_or_init_idempotent
    [OF h, where fn' = "counted (returning 123) :: (nat \<times> unit, unit, int) init_fn"
       and ?w1.0 = "(1, ())"
       and fns = "[] :: (nat \<times> unit, unit, int) init_fn list"
       and ops = "[Get, Get_or_init (counted (returning 123) :: (nat \<times> unit, unit, int) init_fn)]"
       and ?w2.0 = "()"]
  show ?thesis
    by (simp add: OnceCell_get_def optional_deref_def OnceCell_get_or_init_def
          OnceCell_is_initialized_def)
qed

text \<open>
  Claim C3. On a cell that is \<^verbatim>\<open>Uninitialized\<close> (any cell a sequence of operations leaves
  in that state) an initializer that throws makes \<^verbatim>\<open>get_or_init\<close> throw the same
  exception; the cell is then exactly as before: \<^verbatim>\<open>Uninitialized\<close>, the slot empty,
  \<^verbatim>\<open>is_initialized\<close> false. A later \<^verbatim>\<open>get_or_init\<close> whose initializer returns \<open>v\<close>
  returns \<open>v\<close> and leaves the cell \<^verbatim>\<open>Initialized\<close>. The same holds for \<^verbatim>\<open>OnceCall::call\<close>.
  A cell whose initializer throws on the first call and returns 7 on the second: the first
  call throws and \<^verbatim>\<open>is_initialized\<close> is false, the second returns 7 and
  \<^verbatim>\<open>is_initialized\<close> is true.
\<close>

theorem failed_initializer_allows_retry:
  "(OnceCell_run ops OnceCell_new w0 = (rs, c, w) \<and> cell_state c = Uninitialized \<and>
      fn w = (Inl e, w') \<longrightarrow>
        OnceCell_get_or_init fn c w = (Inl (Thrown e), c, w') \<and>
        cell_state c = Uninitialized \<and> cell_value c = None \<and> \<not> OnceCell_is_initialized c \<and>
        (g w1 = (Inr v, w2) \<longrightarrow>
           OnceCell_get_or_init g c w1 =
             (Inr v, c\<lparr>cell_value := Some v, cell_state := Initialized\<rparr>, w2) \<and>
           OnceCell_is_initialized (c\<lparr>cell_value := Some v, cell_state := Initialized\<rparr>))) \<and>
   (once_state oc = Uninitialized \<and> cfn cw = (Inl ce, cw') \<longrightarrow>
        OnceCall_call cfn oc cw = (Inl (Thrown ce), oc, cw') \<and>
        \<not> OnceCall_is_initialized oc \<and>
        (cg cw1 = (Inr u, cw2) \<longrightarrow>
           OnceCall_call cg oc cw1 = (Inr (), oc\<lparr>once_state := Initialized\<rparr>, cw2) \<and>
           OnceCall_is_initialized (oc\<lparr>once_state := Initialized\<rparr>))) \<and>
   OnceCell_run [Get_or_init (throwing e0), Is_initialized, Get_or_init (returning 7),
       Is_initialized] OnceCell_new w3 =
     ([Ref_result (Inl (Thrown e0)), Bool_result False, Ref_result (Inr (7 :: int)),
       Bool_result True],
      \<lparr>cell_value = Some 7, cell_state = Initialized\<rparr>, w3)"
proof (intro conjI impI)
  assume a: "OnceCell_run ops OnceCell_new w0 = (rs, c, w) \<and> cell_state c = Uninitialized \<and>
      fn w = (Inl e, w')"
  then have "OnceCell_run ops OnceCell_new w0 = (rs, c, w)" by simp
  then have ok: "cell_ok c" by (rule cell_ok_reachable)
  from a have st: "cell_state c = Uninitialized" and f: "fn w = (Inl e, w')" by simp_all
  from st show "cell_state c = Uninitialized" .
  from ok st show emp: "cell_value c = None"
    by (simp add: cell_ok_def cell_inv_def)
  from st show "\<not> OnceCell_is_initialized c"
    by (simp add: OnceCell_is_initialized_def)
  from st f show "OnceCell_get_or_init fn c w = (Inl (Thrown e), c, w')"
    by (simp add: get_or_init_slow_failure)
  show "OnceCell_is_initialized (c\<lparr>cell_value := Some v, cell_state := Initialized\<rparr>)"
    by (simp add: OnceCell_is_initialized_def)
  assume "g w1 = (Inr v, w2)"
  with st show "OnceCell_get_or_init g c w1 =
             (Inr v, c\<lparr>cell_value := Some v, cell_state := Initialized\<rparr>, w2)"
    by (simp add: get_or_init_slow_success)
next
  assume a: "once_state oc = Uninitialized \<and> cfn cw = (Inl ce, cw')"
  then show "OnceCall_call cfn oc cw = (Inl (Thrown ce), oc, cw')"
    by (simp add: OnceCall_call_def)
  from a show "\<not> OnceCall_is_initialized oc"
    by (simp add: OnceCall_is_initialized_def)
  show "OnceCall_is_initialized (oc\<lparr>once_state := Initialized\<rparr>)"
    by (simp add: OnceCall_is_initialized_def)
  assume "cg cw1 = (Inr u, cw2)"
  with a show "OnceCall_call cg oc cw1 = (Inr (), oc\<lparr>once_state := Initialized\<rparr>, cw2)"
    by (simp add: OnceCall_call_def)
next
  show "OnceCell_run [Get_or_init (throwing e0), Is_initialized, Get_or_init (returning 7),
       Is_initialized] OnceCell_new w3 =
     ([Ref_result (Inl (Thrown e0)), Bool_result False, Ref_result (Inr (7 :: int)),
       Bool_result True],
      \<lparr>cell_value = Some 7, cell_state = Initialized\<rparr>, w3)"
    by (simp add: OnceCell_get_or_init_def OnceCell_new_def returning_def throwing_def
          optional_deref_def OnceCell_is_initialized_def)
qed

theorem failed_initializer_allows_retry_witness:
  "OnceCell_run [Get_or_init (returning 5 :: (unit, string, int) init_fn), Reset] OnceCell_new () =
     ([Ref_result (Inr 5), Void_result],
      \<lparr>cell_value = None, cell_state = Uninitialized\<rparr>, ()) \<and>
   cell_state \<lparr>cell_value = None :: int option, cell_state = Uninitialized\<rparr> = Uninitialized \<and>
   (throwing ''boom'' :: (unit, string, int) init_fn) () = (Inl ''boom'', ()) \<and>
   OnceCell_get_or_init (throwing ''boom'' :: (unit, string, int) init_fn)
       \<lparr>cell_value = None, cell_state = Uninitialized\<rparr> () =
     (Inl (Thrown ''boom''), \<lparr>cell_value = None, cell_state = Uninitialized\<rparr>, ()) \<and>
   \<not> OnceCell_is_initialized \<lparr>cell_value = None :: int option, cell_state = Uninitialized\<rparr> \<and>
   (returning 7 :: (unit, string, int) init_fn) () = (Inr 7, ()) \<and>
   OnceCell_get_or_init (returning 7 :: (unit, string, int) init_fn)
       \<lparr>cell_value = None, cell_state = Uninitialized\<rparr> () =
     (Inr 7, \<lparr>cell_value = Some 7, cell_state = Initialized\<rparr>, ()) \<and>
   once_state OnceCall_new = Uninitialized \<and>
   (throwing ''boom'' :: (nat, string, unit) init_fn) 0 = (Inl ''boom'', 0) \<and>
   OnceCall_call (throwing ''boom'' :: (nat, string, unit) init_fn) OnceCall_new 0 =
     (Inl (Thrown ''boom''), OnceCall_new, 0) \<and>
   \<not> OnceCall_is_initialized OnceCall_new \<and>
   (increment :: (nat, string, unit) init_fn) 0 = (Inr (), 1) \<and>
   OnceCall_call (increment :: (nat, string, unit) init_fn) OnceCall_new 0 =
     (Inr (), \<lparr>once_state = Initialized\<rparr>, 1)"
  using failed_initializer_allows_retry
    [where ops = "[Get_or_init (returning 5 :: (unit, string, int) init_fn), Reset]"
       and ?w0.0 = "()" and rs = "[Ref_result (Inr 5), Void_result]"
       and c = "\<lparr>cell_value = None, cell_state = Uninitialized\<rparr>" and w = "()"
       and fn = "throwing ''boom'' :: (unit, string, int) init_fn"
       and e = "''boom''" and w' = "()"
       and g = "returning 7 :: (unit, string, int) init_fn" and ?w1.0 = "()" and v = 7
       and ?w2.0 = "()"
       and oc = OnceCall_new and cfn = "throwing ''boom'' :: (nat, string, unit) init_fn"
       and cw = 0 and ce = "''boom''" and cw' = 0
       and cg = "increment :: (nat, string, unit) init_fn" and ?cw1.0 = 0 and u = "()"
       and ?cw2.0 = 1 and ?e0.0 = "()" and ?w3.0 = "()"]
  by (simp add: OnceCell_get_or_init_def OnceCell_new_def OnceCell_reset_def returning_def
        throwing_def optional_deref_def OnceCell_is_initialized_def OnceCall_new_def
        OnceCall_call_def OnceCall_is_initialized_def increment_def)

text \<open>
  Claim C4. After every prefix of every sequence of \<^verbatim>\<open>get_or_init\<close>, \<^verbatim>\<open>get\<close>,
  \<^verbatim>\<open>try_get\<close>, \<^verbatim>\<open>is_initialized\<close> and \<^verbatim>\<open>reset\<close> operations on a new cell, the slot is
  occupied exactly when the flag is \<^verbatim>\<open>Initialized\<close>, and the flag is not
  \<^verbatim>\<open>Initializing\<close>. When \<^verbatim>\<open>get_or_init\<close> fails on such a cell, what it throws is what
  the initializer threw, and it leaves the cell as it found it: the slot empty and the
  flag \<^verbatim>\<open>Uninitialized\<close>.
\<close>

theorem OnceCell_slot_invariant:
  "((cell_value (fst (snd (OnceCell_run (take k ops) OnceCell_new w))) \<noteq> None) =
      (cell_state (fst (snd (OnceCell_run (take k ops) OnceCell_new w))) = Initialized)) \<and>
   cell_state (fst (snd (OnceCell_run (take k ops) OnceCell_new w))) \<noteq> Initializing \<and>
   (OnceCell_run ops OnceCell_new w = (rs, c, w1) \<and>
    OnceCell_get_or_init fn c w1 = (Inl x, c', w2) \<longrightarrow>
      (\<exists>e. x = Thrown e \<and> fn w1 = (Inl e, w2)) \<and> c' = c \<and>
      cell_value c' = None \<and> cell_state c' = Uninitialized)"
proof -
  obtain rs0 c0 u0 where "OnceCell_run (take k ops) OnceCell_new w = (rs0, c0, u0)"
    by (metis prod_cases3)
  moreover from this have "cell_ok c0" by (rule cell_ok_reachable)
  ultimately have
    "(cell_value (fst (snd (OnceCell_run (take k ops) OnceCell_new w))) \<noteq> None) =
      (cell_state (fst (snd (OnceCell_run (take k ops) OnceCell_new w))) = Initialized)"
    "cell_state (fst (snd (OnceCell_run (take k ops) OnceCell_new w))) \<noteq> Initializing"
    by (simp_all add: cell_ok_def cell_inv_def)
  moreover have "OnceCell_run ops OnceCell_new w = (rs, c, w1) \<and>
    OnceCell_get_or_init fn c w1 = (Inl x, c', w2) \<longrightarrow>
      (\<exists>e. x = Thrown e \<and> fn w1 = (Inl e, w2)) \<and> c' = c \<and>
      cell_value c' = None \<and> cell_state c' = Uninitialized"
    using reachable_failure [of ops w rs c w1 fn x c' w2] by blast
  ultimately show ?thesis by blast
qed

theorem OnceCell_slot_invariant_witness:
  "((cell_value (fst (snd (OnceCell_run
        (take 2 [Get_or_init (returning 5 :: (unit, string, int) init_fn), Reset, Get])
        OnceCell_new ()))) \<noteq> None) =
    (cell_state (fst (snd (OnceCell_run
        (take 2 [Get_or_init (returning 5 :: (unit, string, int) init_fn), Reset, Get])
        OnceCell_new ()))) = Initialized)) \<and>
   OnceCell_run [Get_or_init (returning 5 :: (unit, string, int) init_fn), Reset, Get]
       OnceCell_new () =
     ([Ref_result (Inr 5), Void_result, Ptr_result (Inr None)],
      \<lparr>cell_value = None, cell_state = Uninitialized\<rparr>, ()) \<and>
   OnceCell_get_or_init (throwing ''boom'' :: (unit, string, int) init_fn)
       \<lparr>cell_value = None, cell_state = Uninitialized\<rparr> () =
     (Inl (Thrown ''boom''), \<lparr>cell_value = None, cell_state = Uninitialized\<rparr>, ()) \<and>
   cell_value \<lparr>cell_value = None :: int option, cell_state = Uninitialized\<rparr> = None \<and>
   cell_state \<lparr>cell_value = None :: int option, cell_state = Uninitialized\<rparr> = Uninitialized"
  using OnceCell_slot_invariant
    [where k = 2
       and ops = "[Get_or_init (returning 5 :: (unit, string, int) init_fn), Reset, Get]"
       and w = "()" and rs = "[Ref_result (Inr 5), Void_result, Ptr_result (Inr None)]"
       and c = "\<lparr>cell_value = None, cell_state = Uninitialized\<rparr>" and ?w1.0 = "()"
       and fn = "throwing ''boom'' :: (unit, string, int) init_fn"
       and x = "Thrown ''boom''"
       and c' = "\<lparr>cell_value = None, cell_state = Uninitialized\<rparr>" and ?w2.0 = "()"]
  by (simp add: OnceCell_get_or_init_def OnceCell_new_def OnceCell_reset_def returning_def
        throwing_def optional_deref_def OnceCell_get_def numeral_2_eq_2)

text \<open>
  Claim C6, for \<^verbatim>\<open>OnceCell<T>\<close> (the adapter's \<^verbatim>\<open>Lazy<T>::try_get\<close> cannot be called, see
  above, and is not part of the statement). \<^verbatim>\<open>get\<close> and \<^verbatim>\<open>try_get\<close> give the same result
  on every cell. Neither takes an initializer; as
  operations of a caller they leave the cell and the outside state as they were, and so
  does any sequence of \<^verbatim>\<open>get\<close>, \<^verbatim>\<open>try_get\<close> and \<^verbatim>\<open>is_initialized\<close>. The result is
  \<^verbatim>\<open>nullptr\<close> when the flag is not \<^verbatim>\<open>Initialized\<close> and a pointer to the stored value when
  it is; on every cell that a sequence of operations on a new cell produces, the result is
  the content of the slot, which is empty exactly when \<^verbatim>\<open>is_initialized\<close> is false.
\<close>

theorem OnceCell_get_never_initializes:
  "(OnceCell_try_get c :: 'e error + 'a option) = OnceCell_get c \<and>
   OnceCell_step Get c w = (Ptr_result (OnceCell_get c :: 'e error + 'a option), c, w) \<and>
   OnceCell_step Try_get c w = (Ptr_result (OnceCell_try_get c :: 'e error + 'a option), c, w) \<and>
   (set rops \<subseteq> {Get, Try_get, Is_initialized} \<longrightarrow>
      snd (OnceCell_run rops c w) = (c, w)) \<and>
   (cell_state c \<noteq> Initialized \<longrightarrow> (OnceCell_get c :: 'e error + 'a option) = Inr None) \<and>
   (cell_state c = Initialized \<and> cell_value c = Some v \<longrightarrow>
      (OnceCell_get c :: 'e error + 'a option) = Inr (Some v)) \<and>
   (OnceCell_run ops OnceCell_new w0 = (rs, c, w) \<longrightarrow>
      (OnceCell_get c :: 'e error + 'a option) = Inr (cell_value c) \<and>
      (cell_value c = None) = (\<not> OnceCell_is_initialized c))"
proof (intro conjI impI)
  show "(OnceCell_try_get c :: 'e error + 'a option) = OnceCell_get c"
    by (rule get_try_get)
  show "OnceCell_step Get c w = (Ptr_result (OnceCell_get c :: 'e error + 'a option), c, w)"
    by simp
  show "OnceCell_step Try_get c w =
      (Ptr_result (OnceCell_try_get c :: 'e error + 'a option), c, w)"
    by simp
next
  assume "set rops \<subseteq> {Get, Try_get, Is_initialized}"
  then show "snd (OnceCell_run rops c w) = (c, w)"
    by (rule run_readers_frame)
next
  assume "cell_state c \<noteq> Initialized"
  then show "(OnceCell_get c :: 'e error + 'a option) = Inr None"
    by (simp add: OnceCell_get_def)
next
  assume "cell_state c = Initialized \<and> cell_value c = Some v"
  then show "(OnceCell_get c :: 'e error + 'a option) = Inr (Some v)"
    by (simp add: OnceCell_get_def optional_deref_def)
next
  assume "OnceCell_run ops OnceCell_new w0 = (rs, c, w)"
  then have ok: "cell_ok c" by (rule cell_ok_reachable)
  then show "(OnceCell_get c :: 'e error + 'a option) = Inr (cell_value c)"
    by (rule get_ok)
  from ok show "(cell_value c = None) = (\<not> OnceCell_is_initialized c)"
    by (auto simp: cell_ok_def cell_inv_def OnceCell_is_initialized_def)
qed

theorem OnceCell_get_never_initializes_witness:
  "set [Get, Try_get, Is_initialized :: (unit, string, int) cell_op]
     \<subseteq> {Get, Try_get, Is_initialized} \<and>
   snd (OnceCell_run [Get, Try_get, Is_initialized :: (unit, string, int) cell_op]
          \<lparr>cell_value = Some 42, cell_state = Initialized\<rparr> ()) =
     (\<lparr>cell_value = Some 42, cell_state = Initialized\<rparr>, ()) \<and>
   cell_state \<lparr>cell_value = Some (42 :: int), cell_state = Initialized\<rparr> = Initialized \<and>
   cell_value \<lparr>cell_value = Some (42 :: int), cell_state = Initialized\<rparr> = Some 42 \<and>
   (OnceCell_get \<lparr>cell_value = Some (42 :: int), cell_state = Initialized\<rparr>
      :: string error + int option) = Inr (Some 42) \<and>
   (OnceCell_try_get \<lparr>cell_value = Some (42 :: int), cell_state = Initialized\<rparr>
      :: string error + int option) = Inr (Some 42) \<and>
   OnceCell_run [Get_or_init (returning 42 :: (unit, string, int) init_fn)] OnceCell_new () =
     ([Ref_result (Inr 42)], \<lparr>cell_value = Some 42, cell_state = Initialized\<rparr>, ()) \<and>
   cell_state (OnceCell_new :: int OnceCell) \<noteq> Initialized \<and>
   (OnceCell_get (OnceCell_new :: int OnceCell) :: string error + int option) = Inr None"
  using OnceCell_get_never_initializes
    [where c = "\<lparr>cell_value = Some (42 :: int), cell_state = Initialized\<rparr>"
       and 'e = string and w = "()" and v = 42
       and rops = "[Get, Try_get, Is_initialized :: (unit, string, int) cell_op]"
       and ops = "[Get_or_init (returning 42 :: (unit, string, int) init_fn)]"
       and ?w0.0 = "()" and rs = "[Ref_result (Inr 42)]"]
    OnceCell_get_never_initializes
    [where c = "OnceCell_new :: int OnceCell"
       and 'e = string and w = "()" and v = 42
       and rops = "[Get, Try_get, Is_initialized :: (unit, string, int) cell_op]"
       and ops = "[Get_or_init (returning 42 :: (unit, string, int) init_fn)]"
       and ?w0.0 = "()" and rs = "[Ref_result (Inr 42)]"]
  by (simp add: OnceCell_get_or_init_def OnceCell_new_def returning_def optional_deref_def
        OnceCell_get_def OnceCell_try_get_def OnceCell_is_initialized_def)

text \<open>
  Claim C9. \<^verbatim>\<open>operator*\<close> and \<^verbatim>\<open>operator->\<close> of \<^verbatim>\<open>OnceCell<T>\<close> depend on the slot
  only, not on the flag: they give the stored value when the slot is occupied and are an
  access to an empty optional when it is empty. On every cell that a sequence of
  operations on a new cell produces, they give the stored value when the cell is
  \<^verbatim>\<open>Initialized\<close>, and are an access to an empty optional when it is not.
\<close>

theorem OnceCell_deref_requires_initialized:
  "(OnceCell_deref (c\<lparr>cell_state := s\<rparr>) :: 'e error + 'a) = OnceCell_deref c \<and>
   (OnceCell_arrow (c\<lparr>cell_state := s\<rparr>) :: 'e error + 'a option) = OnceCell_arrow c \<and>
   (cell_value c = Some v \<longrightarrow>
      (OnceCell_deref c :: 'e error + 'a) = Inr v \<and>
      (OnceCell_arrow c :: 'e error + 'a option) = Inr (Some v)) \<and>
   (cell_value c = None \<longrightarrow>
      (OnceCell_deref c :: 'e error + 'a) = Inl Empty_Optional_Access \<and>
      (OnceCell_arrow c :: 'e error + 'a option) = Inl Empty_Optional_Access) \<and>
   (OnceCell_run ops OnceCell_new w0 = (rs, c, w) \<and> OnceCell_is_initialized c \<longrightarrow>
      (\<exists>x. cell_value c = Some x \<and>
           (OnceCell_deref c :: 'e error + 'a) = Inr x \<and>
           (OnceCell_arrow c :: 'e error + 'a option) = Inr (Some x))) \<and>
   (OnceCell_run ops OnceCell_new w0 = (rs, c, w) \<and> \<not> OnceCell_is_initialized c \<longrightarrow>
      (OnceCell_deref c :: 'e error + 'a) = Inl Empty_Optional_Access \<and>
      (OnceCell_arrow c :: 'e error + 'a option) = Inl Empty_Optional_Access)"
proof (intro conjI impI)
  show "(OnceCell_deref (c\<lparr>cell_state := s\<rparr>) :: 'e error + 'a) = OnceCell_deref c"
    by (simp add: OnceCell_deref_def)
  show "(OnceCell_arrow (c\<lparr>cell_state := s\<rparr>) :: 'e error + 'a option) = OnceCell_arrow c"
    by (simp add: OnceCell_arrow_def)
next
  assume "cell_value c = Some v"
  then show "(OnceCell_deref c :: 'e error + 'a) = Inr v"
    and "(OnceCell_arrow c :: 'e error + 'a option) = Inr (Some v)"
    by (simp_all add: OnceCell_deref_def OnceCell_arrow_def optional_deref_def)
next
  assume "cell_value c = None"
  then show "(OnceCell_deref c :: 'e error + 'a) = Inl Empty_Optional_Access"
    and "(OnceCell_arrow c :: 'e error + 'a option) = Inl Empty_Optional_Access"
    by (simp_all add: OnceCell_deref_def OnceCell_arrow_def optional_deref_def)
next
  assume a: "OnceCell_run ops OnceCell_new w0 = (rs, c, w) \<and> OnceCell_is_initialized c"
  then have "OnceCell_run ops OnceCell_new w0 = (rs, c, w)" by simp
  then have "cell_ok c" by (rule cell_ok_reachable)
  with a obtain x where "cell_value c = Some x"
    by (auto simp: cell_ok_def cell_inv_def OnceCell_is_initialized_def)
  then show "\<exists>x. cell_value c = Some x \<and>
           (OnceCell_deref c :: 'e error + 'a) = Inr x \<and>
           (OnceCell_arrow c :: 'e error + 'a option) = Inr (Some x)"
    by (simp add: OnceCell_deref_def OnceCell_arrow_def optional_deref_def)
next
  assume a: "OnceCell_run ops OnceCell_new w0 = (rs, c, w) \<and> \<not> OnceCell_is_initialized c"
  then have "OnceCell_run ops OnceCell_new w0 = (rs, c, w)" by simp
  then have "cell_ok c" by (rule cell_ok_reachable)
  with a have "cell_value c = None"
    by (auto simp: cell_ok_def cell_inv_def OnceCell_is_initialized_def)
  then show "(OnceCell_deref c :: 'e error + 'a) = Inl Empty_Optional_Access"
    and "(OnceCell_arrow c :: 'e error + 'a option) = Inl Empty_Optional_Access"
    by (simp_all add: OnceCell_deref_def OnceCell_arrow_def optional_deref_def)
qed

theorem OnceCell_deref_requires_initialized_witness:
  "OnceCell_run [Get_or_init (returning 42 :: (unit, string, int) init_fn)] OnceCell_new () =
     ([Ref_result (Inr 42)], \<lparr>cell_value = Some 42, cell_state = Initialized\<rparr>, ()) \<and>
   OnceCell_is_initialized \<lparr>cell_value = Some (42 :: int), cell_state = Initialized\<rparr> \<and>
   (OnceCell_deref \<lparr>cell_value = Some (42 :: int), cell_state = Initialized\<rparr>
      :: string error + int) = Inr 42 \<and>
   (OnceCell_arrow \<lparr>cell_value = Some (42 :: int), cell_state = Initialized\<rparr>
      :: string error + int option) = Inr (Some 42) \<and>
   OnceCell_run [Get_or_init (returning 42 :: (unit, string, int) init_fn), Reset]
       OnceCell_new () =
     ([Ref_result (Inr 42), Void_result],
      \<lparr>cell_value = None, cell_state = Uninitialized\<rparr>, ()) \<and>
   \<not> OnceCell_is_initialized \<lparr>cell_value = None :: int option, cell_state = Uninitialized\<rparr> \<and>
   (OnceCell_deref \<lparr>cell_value = None :: int option, cell_state = Uninitialized\<rparr>
      :: string error + int) = Inl Empty_Optional_Access \<and>
   (OnceCell_arrow \<lparr>cell_value = None :: int option, cell_state = Uninitialized\<rparr>
      :: string error + int option) = Inl Empty_Optional_Access"
  using OnceCell_deref_requires_initialized
    [where c = "\<lparr>cell_value = Some (42 :: int), cell_state = Initialized\<rparr>"
       and 'e = string and s = Initialized and v = 42
       and ops = "[Get_or_init (returning 42 :: (unit, string, int) init_fn)]"
       and ?w0.0 = "()" and rs = "[Ref_result (Inr 42)]" and w = "()"]
    OnceCell_deref_requires_initialized
    [where c = "\<lparr>cell_value = None :: int option, cell_state = Uninitialized\<rparr>"
       and 'e = string and s = Initialized and v = 42
       and ops = "[Get_or_init (returning 42 :: (unit, string, int) init_fn), Reset]"
       and ?w0.0 = "()" and rs = "[Ref_result (Inr 42), Void_result]" and w = "()"]
  by (simp add: OnceCell_get_or_init_def OnceCell_new_def OnceCell_reset_def returning_def
        optional_deref_def OnceCell_is_initialized_def OnceCell_deref_def OnceCell_arrow_def)

text \<open>
  Claim C7. After \<^verbatim>\<open>reset\<close>, \<^verbatim>\<open>is_initialized\<close> is false and the slot (of a cell, of the
  cell of a \<^verbatim>\<open>Lazy<T>\<close>) is empty; the next \<^verbatim>\<open>get_or_init\<close>, \<^verbatim>\<open>call\<close> or adapter
  \<^verbatim>\<open>get\<close> invokes its initializer in the current outside state, returns what that
  invocation returns (or throws what it throws) and leaves the outside state the
  invocation produced. Initializing to 77, resetting and initializing again with a
  function returning 88 yields 88.
\<close>

theorem reset_allows_reinitialization:
  "\<not> OnceCell_is_initialized (OnceCell_reset c) \<and>
   cell_value (OnceCell_reset c) = None \<and>
   (fn w = (Inr v, w') \<longrightarrow>
      OnceCell_get_or_init fn (OnceCell_reset c) w =
        (Inr v, (OnceCell_reset c)\<lparr>cell_value := Some v, cell_state := Initialized\<rparr>, w')) \<and>
   (fn w = (Inl e, w') \<longrightarrow>
      OnceCell_get_or_init fn (OnceCell_reset c) w = (Inl (Thrown e), OnceCell_reset c, w')) \<and>
   \<not> OnceCall_is_initialized (OnceCall_reset oc) \<and>
   (cfn cw = (Inr u, cw') \<longrightarrow>
      OnceCall_call cfn (OnceCall_reset oc) cw =
        (Inr (), (OnceCall_reset oc)\<lparr>once_state := Initialized\<rparr>, cw')) \<and>
   (cfn cw = (Inl ce, cw') \<longrightarrow>
      OnceCall_call cfn (OnceCall_reset oc) cw = (Inl (Thrown ce), OnceCall_reset oc, cw')) \<and>
   \<not> Lazy_is_initialized (Lazy_reset l) \<and>
   cell_value (lazy_cell (Lazy_reset l)) = None \<and>
   lazy_init_fn (Lazy_reset l) = lazy_init_fn l \<and>
   (lazy_init_fn l lw = (Inr lv, lw') \<longrightarrow>
      Lazy_get (Lazy_reset l) lw =
        (Inr lv,
         l\<lparr>lazy_cell := (OnceCell_reset (lazy_cell l))
              \<lparr>cell_value := Some lv, cell_state := Initialized\<rparr>\<rparr>, lw')) \<and>
   \<not> LazyVoid_is_initialized (LazyVoid_reset vl) \<and>
   void_init_fn (LazyVoid_reset vl) = void_init_fn vl \<and>
   (void_init_fn vl vw = (Inr vu, vw') \<longrightarrow>
      LazyVoid_get (LazyVoid_reset vl) vw =
        (Inr (), vl\<lparr>void_once := (OnceCall_reset (void_once vl))\<lparr>once_state := Initialized\<rparr>\<rparr>,
         vw')) \<and>
   OnceCell_run [Get_or_init (returning 77), Reset, Is_initialized, Get_or_init (returning 88)]
       OnceCell_new w1 =
     ([Ref_result (Inr (77 :: int)), Void_result, Bool_result False, Ref_result (Inr 88)],
      \<lparr>cell_value = Some 88, cell_state = Initialized\<rparr>, w1)"
proof (intro conjI impI)
  have st: "cell_state (OnceCell_reset c) \<noteq> Initialized"
    by (simp add: OnceCell_reset_def)
  show "\<not> OnceCell_is_initialized (OnceCell_reset c)"
    by (simp add: OnceCell_is_initialized_def OnceCell_reset_def)
  show "cell_value (OnceCell_reset c) = None"
    by (simp add: OnceCell_reset_def)
  show "OnceCell_get_or_init fn (OnceCell_reset c) w =
        (Inr v, (OnceCell_reset c)\<lparr>cell_value := Some v, cell_state := Initialized\<rparr>, w')"
    if "fn w = (Inr v, w')"
    using get_or_init_slow_success [of "OnceCell_reset c" fn w v w'] st that by simp
  show "OnceCell_get_or_init fn (OnceCell_reset c) w = (Inl (Thrown e), OnceCell_reset c, w')"
    if "fn w = (Inl e, w')"
    using get_or_init_slow_failure [of "OnceCell_reset c" fn w e w'] st that
    by (simp add: OnceCell_reset_def)
  show "\<not> OnceCall_is_initialized (OnceCall_reset oc)"
    by (simp add: OnceCall_is_initialized_def OnceCall_reset_def)
  show "OnceCall_call cfn (OnceCall_reset oc) cw =
        (Inr (), (OnceCall_reset oc)\<lparr>once_state := Initialized\<rparr>, cw')"
    if "cfn cw = (Inr u, cw')"
    using that by (simp add: OnceCall_call_def OnceCall_reset_def)
  show "OnceCall_call cfn (OnceCall_reset oc) cw = (Inl (Thrown ce), OnceCall_reset oc, cw')"
    if "cfn cw = (Inl ce, cw')"
    using that by (simp add: OnceCall_call_def OnceCall_reset_def)
  show "\<not> Lazy_is_initialized (Lazy_reset l)"
    by (simp add: Lazy_is_initialized_def Lazy_reset_def OnceCell_is_initialized_def
          OnceCell_reset_def)
  show "cell_value (lazy_cell (Lazy_reset l)) = None"
    by (simp add: Lazy_reset_def OnceCell_reset_def)
  show "lazy_init_fn (Lazy_reset l) = lazy_init_fn l"
    by (simp add: Lazy_reset_def)
  show "Lazy_get (Lazy_reset l) lw =
        (Inr lv,
         l\<lparr>lazy_cell := (OnceCell_reset (lazy_cell l))
              \<lparr>cell_value := Some lv, cell_state := Initialized\<rparr>\<rparr>, lw')"
    if "lazy_init_fn l lw = (Inr lv, lw')"
    using that
    by (simp add: Lazy_get_def Lazy_reset_def OnceCell_reset_def OnceCell_get_or_init_def
          optional_deref_def)
  show "\<not> LazyVoid_is_initialized (LazyVoid_reset vl)"
    by (simp add: LazyVoid_is_initialized_def LazyVoid_reset_def OnceCall_is_initialized_def
          OnceCall_reset_def)
  show "void_init_fn (LazyVoid_reset vl) = void_init_fn vl"
    by (simp add: LazyVoid_reset_def)
  show "LazyVoid_get (LazyVoid_reset vl) vw =
        (Inr (), vl\<lparr>void_once := (OnceCall_reset (void_once vl))\<lparr>once_state := Initialized\<rparr>\<rparr>,
         vw')"
    if "void_init_fn vl vw = (Inr vu, vw')"
    using that by (simp add: LazyVoid_get_def LazyVoid_reset_def OnceCall_call_def OnceCall_reset_def)
  show "OnceCell_run [Get_or_init (returning 77), Reset, Is_initialized, Get_or_init (returning 88)]
       OnceCell_new w1 =
     ([Ref_result (Inr (77 :: int)), Void_result, Bool_result False, Ref_result (Inr 88)],
      \<lparr>cell_value = Some 88, cell_state = Initialized\<rparr>, w1)"
    by (simp add: OnceCell_get_or_init_def OnceCell_new_def OnceCell_reset_def returning_def
          optional_deref_def OnceCell_is_initialized_def)
qed

theorem reset_allows_reinitialization_witness:
  "(counted (returning 88) :: (nat \<times> unit, string, int) init_fn) (1, ()) = (Inr 88, (2, ())) \<and>
   OnceCell_get_or_init (counted (returning 88) :: (nat \<times> unit, string, int) init_fn)
       (OnceCell_reset \<lparr>cell_value = Some 77, cell_state = Initialized\<rparr>) (1, ()) =
     (Inr 88, \<lparr>cell_value = Some 88, cell_state = Initialized\<rparr>, (2, ())) \<and>
   (throwing ''boom'' :: (nat \<times> unit, string, int) init_fn) (1, ()) = (Inl ''boom'', (1, ())) \<and>
   OnceCell_get_or_init (throwing ''boom'' :: (nat \<times> unit, string, int) init_fn)
       (OnceCell_reset \<lparr>cell_value = Some 77, cell_state = Initialized\<rparr>) (1, ()) =
     (Inl (Thrown ''boom''), \<lparr>cell_value = None, cell_state = Uninitialized\<rparr>, (1, ())) \<and>
   (increment :: (nat, string, unit) init_fn) 1 = (Inr (), 2) \<and>
   OnceCall_call (increment :: (nat, string, unit) init_fn)
       (OnceCall_reset \<lparr>once_state = Initialized\<rparr>) 1 =
     (Inr (), \<lparr>once_state = Initialized\<rparr>, 2) \<and>
   (throwing ''boom'' :: (nat, string, unit) init_fn) 1 = (Inl ''boom'', 1) \<and>
   OnceCall_call (throwing ''boom'' :: (nat, string, unit) init_fn)
       (OnceCall_reset \<lparr>once_state = Initialized\<rparr>) 1 =
     (Inl (Thrown ''boom''), \<lparr>once_state = Uninitialized\<rparr>, 1) \<and>
   Lazy_get (Lazy_reset
       \<lparr>lazy_cell = \<lparr>cell_value = Some 77, cell_state = Initialized\<rparr>,
        lazy_init_fn = (counted (returning 88) :: (nat \<times> unit, string, int) init_fn)\<rparr>) (1, ()) =
     (Inr 88,
      \<lparr>lazy_cell = \<lparr>cell_value = Some 88, cell_state = Initialized\<rparr>,
       lazy_init_fn = (counted (returning 88) :: (nat \<times> unit, string, int) init_fn)\<rparr>, (2, ())) \<and>
   LazyVoid_get (LazyVoid_reset
       \<lparr>void_once = \<lparr>once_state = Initialized\<rparr>,
        void_init_fn = (increment :: (nat, string, unit) init_fn)\<rparr>) 1 =
     (Inr (),
      \<lparr>void_once = \<lparr>once_state = Initialized\<rparr>,
       void_init_fn = (increment :: (nat, string, unit) init_fn)\<rparr>, 2)"
  using reset_allows_reinitialization
    [where c = "\<lparr>cell_value = Some (77 :: int), cell_state = Initialized\<rparr>"
       and fn = "counted (returning 88) :: (nat \<times> unit, string, int) init_fn"
       and w = "(1, ())" and v = 88 and w' = "(2, ())" and e = "''boom''"
       and oc = "\<lparr>once_state = Initialized\<rparr>"
       and cfn = "increment :: (nat, string, unit) init_fn"
       and cw = 1 and u = "()" and cw' = 2 and ce = "''boom''"
       and l = "\<lparr>lazy_cell = \<lparr>cell_value = Some 77, cell_state = Initialized\<rparr>,
                 lazy_init_fn = (counted (returning 88) :: (nat \<times> unit, string, int) init_fn)\<rparr>"
       and lw = "(1, ())" and lv = 88 and lw' = "(2, ())"
       and vl = "\<lparr>void_once = \<lparr>once_state = Initialized\<rparr>,
                  void_init_fn = (increment :: (nat, string, unit) init_fn)\<rparr>"
       and vw = 1 and vu = "()" and vw' = 2 and ?w1.0 = "()"]
    reset_allows_reinitialization
    [where c = "\<lparr>cell_value = Some (77 :: int), cell_state = Initialized\<rparr>"
       and fn = "throwing ''boom'' :: (nat \<times> unit, string, int) init_fn"
       and w = "(1, ())" and v = 88 and w' = "(1, ())" and e = "''boom''"
       and oc = "\<lparr>once_state = Initialized\<rparr>"
       and cfn = "throwing ''boom'' :: (nat, string, unit) init_fn"
       and cw = 1 and u = "()" and cw' = 1 and ce = "''boom''"
       and l = "\<lparr>lazy_cell = \<lparr>cell_value = Some 77, cell_state = Initialized\<rparr>,
                 lazy_init_fn = (counted (returning 88) :: (nat \<times> unit, string, int) init_fn)\<rparr>"
       and lw = "(1, ())" and lv = 88 and lw' = "(2, ())"
       and vl = "\<lparr>void_once = \<lparr>once_state = Initialized\<rparr>,
                  void_init_fn = (increment :: (nat, string, unit) init_fn)\<rparr>"
       and vw = 1 and vu = "()" and vw' = 2 and ?w1.0 = "()"]
  by (simp add: OnceCell_get_or_init_def OnceCell_reset_def returning_def throwing_def
        counted_def increment_def optional_deref_def OnceCall_call_def OnceCall_reset_def
        Lazy_get_def Lazy_reset_def LazyVoid_get_def LazyVoid_reset_def)

section \<open>The adapters\<close>

text \<open>
  Claim C8. A newly constructed \<^verbatim>\<open>Lazy<T>\<close> or \<^verbatim>\<open>Lazy<void>\<close> is not initialized, its
  slot is empty and it holds the initializer it was given; constructing it takes no
  outside state, so it invokes nothing. The first \<^verbatim>\<open>get\<close>, \<^verbatim>\<open>operator*\<close> or
  \<^verbatim>\<open>operator->\<close> invokes the bound initializer in the outside state of that access: it
  returns what the initializer returns and leaves the outside state the initializer
  produced, or throws what the initializer throws and leaves the adapter as constructed.
  A counter of successful invocations is 1 after the first access.
\<close>

theorem Lazy_construction_is_lazy:
  "\<not> Lazy_is_initialized (Lazy_new fn) \<and>
   cell_value (lazy_cell (Lazy_new fn)) = None \<and>
   lazy_init_fn (Lazy_new fn) = fn \<and>
   (fn w = (Inr v, w') \<longrightarrow>
      Lazy_get (Lazy_new fn) w =
        (Inr v,
         \<lparr>lazy_cell = \<lparr>cell_value = Some v, cell_state = Initialized\<rparr>, lazy_init_fn = fn\<rparr>,
         w') \<and>
      Lazy_deref (Lazy_new fn) w = Lazy_get (Lazy_new fn) w \<and>
      Lazy_arrow (Lazy_new fn) w =
        (Inr (Some v),
         \<lparr>lazy_cell = \<lparr>cell_value = Some v, cell_state = Initialized\<rparr>, lazy_init_fn = fn\<rparr>,
         w')) \<and>
   (fn w = (Inl e, w') \<longrightarrow>
      Lazy_get (Lazy_new fn) w = (Inl (Thrown e), Lazy_new fn, w') \<and>
      Lazy_deref (Lazy_new fn) w = (Inl (Thrown e), Lazy_new fn, w') \<and>
      Lazy_arrow (Lazy_new fn) w = (Inl (Thrown e), Lazy_new fn, w')) \<and>
   \<not> LazyVoid_is_initialized (LazyVoid_new vfn) \<and>
   void_init_fn (LazyVoid_new vfn) = vfn \<and>
   (vfn vw = (Inr u, vw') \<longrightarrow>
      LazyVoid_get (LazyVoid_new vfn) vw =
        (Inr (), \<lparr>void_once = \<lparr>once_state = Initialized\<rparr>, void_init_fn = vfn\<rparr>, vw')) \<and>
   (vfn vw = (Inl ve, vw') \<longrightarrow>
      LazyVoid_get (LazyVoid_new vfn) vw = (Inl (Thrown ve), LazyVoid_new vfn, vw')) \<and>
   fst (snd (snd (Lazy_get (Lazy_new (counted (returning (42 :: int)))) (0, w0)))) = 1 \<and>
   snd (snd (LazyVoid_get (LazyVoid_new increment) 0)) = 1"
  by (simp add: Lazy_is_initialized_def OnceCell_is_initialized_def Lazy_new_def OnceCell_new_def
        Lazy_get_def Lazy_deref_def Lazy_arrow_def OnceCell_get_or_init_def optional_deref_def
        LazyVoid_is_initialized_def OnceCall_is_initialized_def LazyVoid_new_def OnceCall_new_def
        LazyVoid_get_def OnceCall_call_def counted_def returning_def increment_def)

theorem Lazy_construction_is_lazy_witness:
  "(counted (returning 42) :: (nat \<times> unit, string, int) init_fn) (0, ()) = (Inr 42, (1, ())) \<and>
   Lazy_get (Lazy_new (counted (returning 42) :: (nat \<times> unit, string, int) init_fn)) (0, ()) =
     (Inr 42,
      \<lparr>lazy_cell = \<lparr>cell_value = Some 42, cell_state = Initialized\<rparr>,
       lazy_init_fn = (counted (returning 42) :: (nat \<times> unit, string, int) init_fn)\<rparr>, (1, ())) \<and>
   (throwing ''boom'' :: (nat \<times> unit, string, int) init_fn) (0, ()) = (Inl ''boom'', (0, ())) \<and>
   Lazy_get (Lazy_new (throwing ''boom'' :: (nat \<times> unit, string, int) init_fn)) (0, ()) =
     (Inl (Thrown ''boom''),
      Lazy_new (throwing ''boom'' :: (nat \<times> unit, string, int) init_fn), (0, ())) \<and>
   (increment :: (nat, string, unit) init_fn) 0 = (Inr (), 1) \<and>
   LazyVoid_get (LazyVoid_new (increment :: (nat, string, unit) init_fn)) 0 =
     (Inr (),
      \<lparr>void_once = \<lparr>once_state = Initialized\<rparr>,
       void_init_fn = (increment :: (nat, string, unit) init_fn)\<rparr>, 1) \<and>
   (throwing ''boom'' :: (nat, string, unit) init_fn) 0 = (Inl ''boom'', 0) \<and>
   LazyVoid_get (LazyVoid_new (throwing ''boom'' :: (nat, string, unit) init_fn)) 0 =
     (Inl (Thrown ''boom''),
      LazyVoid_new (throwing ''boom'' :: (nat, string, unit) init_fn), 0)"
  using Lazy_construction_is_lazy
    [where fn = "counted (returning 42) :: (nat \<times> unit, string, int) init_fn"
       and w = "(0, ())" and v = 42 and w' = "(1, ())" and e = "''boom''"
       and vfn = "increment :: (nat, string, unit) init_fn"
       and vw = 0 and u = "()" and vw' = 1 and ve = "''boom''" and ?w0.0 = "()"]
    Lazy_construction_is_lazy
    [where fn = "throwing ''boom'' :: (nat \<times> unit, string, int) init_fn"
       and w = "(0, ())" and v = 42 and w' = "(0, ())" and e = "''boom''"
       and vfn = "throwing ''boom'' :: (nat, string, unit) init_fn"
       and vw = 0 and u = "()" and vw' = 0 and ve = "''boom''" and ?w0.0 = "()"]
  by (simp add: counted_def returning_def throwing_def increment_def Lazy_new_def OnceCell_new_def
        Lazy_get_def OnceCell_get_or_init_def optional_deref_def LazyVoid_new_def
        OnceCall_new_def LazyVoid_get_def OnceCall_call_def)

text \<open>
  Claim C10. The \<^verbatim>\<open>bool\<close> conversion of \<^verbatim>\<open>Lazy<T>\<close> and of \<^verbatim>\<open>Lazy<void>\<close> equals
  \<^verbatim>\<open>is_initialized()\<close> in every state of the adapter: it is true exactly when the flag
  of the wrapped primitive is \<^verbatim>\<open>Initialized\<close>, false on a new adapter, and agrees with
  \<^verbatim>\<open>is_initialized()\<close> after an access. It is a function of the adapter alone: it takes
  no outside state and returns no adapter.
\<close>

theorem Lazy_bool_is_is_initialized:
  "Lazy_bool l = Lazy_is_initialized l \<and>
   Lazy_bool l = (cell_state (lazy_cell l) = Initialized) \<and>
   LazyVoid_bool vl = LazyVoid_is_initialized vl \<and>
   LazyVoid_bool vl = (once_state (void_once vl) = Initialized) \<and>
   \<not> Lazy_bool (Lazy_new fn) \<and>
   \<not> LazyVoid_bool (LazyVoid_new vfn) \<and>
   Lazy_bool (fst (snd (Lazy_get l w))) = Lazy_is_initialized (fst (snd (Lazy_get l w))) \<and>
   LazyVoid_bool (fst (snd (LazyVoid_get vl vw))) =
     LazyVoid_is_initialized (fst (snd (LazyVoid_get vl vw)))"
  by (simp add: Lazy_bool_def LazyVoid_bool_def Lazy_is_initialized_def
        OnceCell_is_initialized_def LazyVoid_is_initialized_def OnceCall_is_initialized_def
        Lazy_new_def OnceCell_new_def LazyVoid_new_def OnceCall_new_def)

theorem Lazy_bool_is_is_initialized_witness:
  "Lazy_bool (fst (snd (Lazy_get (Lazy_new (returning 42 :: (unit, string, int) init_fn)) ()))) \<and>
   Lazy_is_initialized
     (fst (snd (Lazy_get (Lazy_new (returning 42 :: (unit, string, int) init_fn)) ()))) \<and>
   \<not> Lazy_bool (Lazy_new (returning 42 :: (unit, string, int) init_fn)) \<and>
   \<not> Lazy_is_initialized (Lazy_new (returning 42 :: (unit, string, int) init_fn)) \<and>
   LazyVoid_bool
     (fst (snd (LazyVoid_get (LazyVoid_new (increment :: (nat, string, unit) init_fn)) 0))) \<and>
   \<not> LazyVoid_bool (LazyVoid_new (increment :: (nat, string, unit) init_fn))"
  using Lazy_bool_is_is_initialized
    [where l = "Lazy_new (returning 42 :: (unit, string, int) init_fn)" and w = "()"
       and vl = "LazyVoid_new (increment :: (nat, string, unit) init_fn)" and vw = 0
       and fn = "returning 42 :: (unit, string, int) init_fn"
       and vfn = "increment :: (nat, string, unit) init_fn"]
  by (simp add: Lazy_bool_def LazyVoid_bool_def Lazy_is_initialized_def
        OnceCell_is_initialized_def LazyVoid_is_initialized_def OnceCall_is_initialized_def
        Lazy_new_def OnceCell_new_def LazyVoid_new_def OnceCall_new_def Lazy_get_def
        LazyVoid_get_def OnceCell_get_or_init_def OnceCall_call_def returning_def increment_def
        optional_deref_def)

end
